theory Spec2Isabelle
  imports Complex_Main "HOL-Library.DAList"
begin

section \<open>Strings and messages\<close>

text \<open>
  Python strings are modelled as \<^typ>\<open>string\<close>: a list of characters with code points
  below 256. Code points from 128 on are not ASCII, as in Python.
\<close>

text \<open>\<open>str(n)\<close> for a non-negative integer: its decimal digits.\<close>

fun str_nat :: "nat \<Rightarrow> string" where
  "str_nat n =
     (if n < 10 then [char_of (48 + n)]
      else str_nat (n div 10) @ [char_of (48 + n mod 10)])"

declare str_nat.simps [simp del]

definition str_int :: "int \<Rightarrow> string" where
  "str_int i = (if i < 0 then CHR ''-'' # str_nat (nat (- i)) else str_nat (nat i))"

definition str_bool :: "bool \<Rightarrow> string" where
  "str_bool b = (if b then ''True'' else ''False'')"

text \<open>
  \<open>str.lower()\<close> on code points below 256: the ASCII capitals and the Latin-1 capitals
  (192 to 222, without the multiplication sign 215) move up by 32.
\<close>

definition lower_char :: "char \<Rightarrow> char" where
  "lower_char c =
     (let n = (of_char c :: nat)
      in if (65 \<le> n \<and> n \<le> 90) \<or> (192 \<le> n \<and> n \<le> 222 \<and> n \<noteq> 215)
         then char_of (n + 32) else c)"

definition lower :: "string \<Rightarrow> string" where
  "lower s = map lower_char s"

text \<open>
  What a handler does to the outside world, in order. \<open>Send c t\<close> is
  \<open>ctx.send\<close> or \<open>channel.send\<close> of text \<open>t\<close> to channel \<open>c\<close>; \<open>Reply c t\<close> is
  \<open>ctx.reply\<close>, a reply to the invoking message in its channel \<open>c\<close>; \<open>RefReply t\<close>
  is \<open>reply\<close> on another message object (\<open>msg_ref\<close>, the prompt message).
  An embed is kept as its title, description, fields (name and value), image and
  footer text; colours, timestamps and thumbnails are left out.
\<close>

record embed =
  title :: string
  description :: string
  embed_fields :: "(string \<times> string) list"
  image :: "string option"
  footer :: string

datatype action =
    Send nat string
  | Reply nat string
  | RefReply string
  | SendEmbed nat embed
  | ReplyEmbed nat embed
  | Paginate "string list"

datatype outcome = Returned | Raised string

text \<open>
  The invocation context \<open>ctx\<close>: the author, the channel, the guild, and
  \<open>ctx.guild.get_member\<close>, which gives the mention of a user who is in the guild and
  \<open>None\<close> for anyone else. \<open>author_avatar\<close> is the URL of \<open>ctx.author.avatar\<close>, which
  is \<open>None\<close> for a user without an avatar of their own.
\<close>

record ctx =
  author_id :: nat
  author_name :: string
  author_mention :: string
  author_str :: string
  author_avatar :: "string option"
  channel :: nat
  channel_nsfw :: bool
  guild_id :: nat
  guild_name :: string
  get_member :: "nat \<Rightarrow> string option"

text \<open>
  What a handler leaves behind: the actions in order, the stored data it worked on, and
  whether it returned or an exception ended it.
\<close>

record 's result =
  sent :: "action list"
  store :: 's
  outcome :: outcome

definition returned :: "action list \<Rightarrow> 's \<Rightarrow> 's result" where
  "returned as c = \<lparr>sent = as, store = c, outcome = Returned\<rparr>"

definition raised :: "string \<Rightarrow> action list \<Rightarrow> 's \<Rightarrow> 's result" where
  "raised e as c = \<lparr>sent = as, store = c, outcome = Raised e\<rparr>"

text \<open>The actions \<open>as\<close> happened before the rest of the handler ran.\<close>

definition after :: "action list \<Rightarrow> 's result \<Rightarrow> 's result" where
  "after as r = r\<lparr>sent := as @ sent r\<rparr>"

section \<open>Tags: \<open>cogs/utils/method.py\<close>\<close>

text \<open>
  A tag document as \<open>_create_tag\<close> inserts it. The collection of a guild
  (\<open>tags[str(guild.id)]\<close>) is the list of its documents in insertion order; nothing in
  the type keeps ids distinct.
\<close>

record tag_doc =
  id' :: string
  text' :: string
  count :: int
  owner :: nat
  nsfw :: bool
  created_at :: int

type_synonym collection = "tag_doc list"

text \<open>
  The driver calls the handlers use, on a filter that is a predicate on documents:
  \<open>find_one\<close> gives the first match, \<open>update_one\<close> changes the first match (no upsert),
  \<open>delete_one\<close> removes the first match, \<open>insert_one\<close> appends.
\<close>

definition find_one :: "(tag_doc \<Rightarrow> bool) \<Rightarrow> collection \<Rightarrow> tag_doc option" where
  "find_one q c = find q c"

fun update_one :: "(tag_doc \<Rightarrow> bool) \<Rightarrow> (tag_doc \<Rightarrow> tag_doc) \<Rightarrow> collection \<Rightarrow> collection" where
  "update_one q u [] = []"
| "update_one q u (d # ds) = (if q d then u d # ds else d # update_one q u ds)"

fun delete_one :: "(tag_doc \<Rightarrow> bool) \<Rightarrow> collection \<Rightarrow> collection" where
  "delete_one q [] = []"
| "delete_one q (d # ds) = (if q d then ds else d # delete_one q ds)"

definition insert_one :: "tag_doc \<Rightarrow> collection \<Rightarrow> collection" where
  "insert_one d c = c @ [d]"

text \<open>
  The value a filter \<open>{"id": v}\<close> compares the id with: a string, or the module-level
  database handle \<open>tags\<close> that \<open>_delete_tag\<close> passes. The handle is no string, so it
  equals no document's id.
\<close>

datatype fval = Str string | TagsHandle

fun id_is :: "fval \<Rightarrow> tag_doc \<Rightarrow> bool" where
  "id_is (Str s) d = (id' d = s)"
| "id_is TagsHandle d = False"

text \<open>\<open>_show_tag\<close>: the reply goes through \<open>msg_ref\<close> when one is given.\<close>

definition show_text :: "ctx \<Rightarrow> bool \<Rightarrow> string \<Rightarrow> action" where
  "show_text cx msg_ref t = (if msg_ref then RefReply t else Send (channel cx) t)"

definition show_tag :: "ctx \<Rightarrow> string \<Rightarrow> bool \<Rightarrow> collection \<Rightarrow> collection result" where
  "show_tag cx tag msg_ref c =
     (let as =
        (case find_one (id_is (Str tag)) c of
           Some data \<Rightarrow>
             if \<not> nsfw data then [show_text cx msg_ref (text' data)]
             else if channel_nsfw cx then [show_text cx msg_ref (text' data)]
             else [Reply (channel cx)
                     (author_mention cx @ '' this tag can only be called in NSFW marked channel'')]
         | None \<Rightarrow>
             [Reply (channel cx) (author_mention cx @ '' No tag with named `'' @ tag @ ''`'')])
      in returned as (update_one (id_is (Str tag)) (\<lambda>d. d\<lparr>count := count d + 1\<rparr>) c))"

text \<open>
  \<open>_create_tag\<close>. \<open>prompt\<close> is \<open>view.value\<close> after the wait: \<open>None\<close> when nobody
  answered. In that branch the source calls \<open>msg.reply\<close> on a name it never binds, so
  the handler raises NameError before the insert. \<open>now\<close> is \<open>int(time())\<close>.
\<close>

definition create_tag :: "ctx \<Rightarrow> string \<Rightarrow> string \<Rightarrow> bool option \<Rightarrow> int \<Rightarrow> collection \<Rightarrow> collection result" where
  "create_tag cx tag txt prompt now c =
     (case find_one (id_is (Str tag)) c of
        Some data \<Rightarrow>
          returned [Reply (channel cx) (author_mention cx @ '' the name `'' @ tag @ ''` already exists'')] c
      | None \<Rightarrow>
          (let ask = Send (channel cx)
                 (author_mention cx @ '' do you want to make the tag as NSFW marked channels'')
           in case prompt of
                None \<Rightarrow> raised ''NameError'' [ask] c
              | Some v \<Rightarrow>
                  returned [ask, Reply (channel cx) (author_mention cx @ '' tag created successfully'')]
                    (insert_one \<lparr>id' = tag, text' = txt, count = 0, owner = author_id cx,
                                 nsfw = v, created_at = now\<rparr> c)))"

text \<open>
  \<open>_delete_tag\<close>. The filter of the delete is \<open>{"id": tags}\<close>: the database handle, not
  the tag name. The driver is not part of the repository; \<open>rejects\<close> says whether it
  refuses a filter value it cannot encode (raising before the reply) or runs the
  delete with it.
\<close>

definition delete_tag :: "bool \<Rightarrow> ctx \<Rightarrow> string \<Rightarrow> collection \<Rightarrow> collection result" where
  "delete_tag rejects cx tag c =
     (case find_one (id_is (Str tag)) c of
        Some data \<Rightarrow>
          if owner data = author_id cx then
            (if rejects then raised ''InvalidDocument'' [] c
             else returned [Reply (channel cx) (author_mention cx @ '' tag deleted successfully'')]
                    (delete_one (id_is TagsHandle) c))
          else returned [Reply (channel cx) (author_mention cx @ '' you don't own this tag'')] c
      | None \<Rightarrow>
          returned [Reply (channel cx) (author_mention cx @ '' No tag with named `'' @ tag @ ''`'')] c)"

text \<open>\<open>_name_edit\<close>: the new name is looked up first, then the tag.\<close>

definition name_edit :: "ctx \<Rightarrow> string \<Rightarrow> string \<Rightarrow> collection \<Rightarrow> collection result" where
  "name_edit cx tag name c =
     (case find_one (id_is (Str name)) c of
        Some exists \<Rightarrow>
          returned [Reply (channel cx) (author_mention cx @ '' that name already exists in the database'')] c
      | None \<Rightarrow>
          (case find_one (id_is (Str tag)) c of
             Some data \<Rightarrow>
               if owner data = author_id cx then
                 returned [Reply (channel cx) (author_mention cx @ '' tag name successfully changed'')]
                   (update_one (id_is (Str tag)) (\<lambda>d. d\<lparr>id' := name\<rparr>) c)
               else returned [Reply (channel cx) (author_mention cx @ '' you don't own this tag'')] c
           | None \<Rightarrow>
               returned [Reply (channel cx) (author_mention cx @ '' No tag with named `'' @ tag @ ''`'')] c))"

definition text_edit :: "ctx \<Rightarrow> string \<Rightarrow> string \<Rightarrow> collection \<Rightarrow> collection result" where
  "text_edit cx tag txt c =
     (case find_one (id_is (Str tag)) c of
        Some data \<Rightarrow>
          if owner data = author_id cx then
            returned [Reply (channel cx) (author_mention cx @ '' tag name successfully changed'')]
              (update_one (id_is (Str tag)) (\<lambda>d. d\<lparr>text' := txt\<rparr>) c)
          else returned [Reply (channel cx) (author_mention cx @ '' you don't own this tag'')] c
      | None \<Rightarrow>
          returned [Reply (channel cx) (author_mention cx @ '' No tag with named `'' @ tag @ ''`'')] c)"

definition claim_owner :: "ctx \<Rightarrow> string \<Rightarrow> collection \<Rightarrow> collection result" where
  "claim_owner cx tag c =
     (case find_one (id_is (Str tag)) c of
        Some data \<Rightarrow>
          (case get_member cx (owner data) of
             Some member \<Rightarrow>
               returned [Reply (channel cx) (author_mention cx @
                 '' you can not claim the tag ownership as the member is still in the server'')] c
           | None \<Rightarrow>
               returned [Reply (channel cx) (author_mention cx @ '' ownership of tag `'' @ tag @ ''` claimed!'')]
                 (update_one (id_is (Str tag)) (\<lambda>d. d\<lparr>owner := author_id cx\<rparr>) c))
      | None \<Rightarrow>
          returned [Reply (channel cx) (author_mention cx @ '' No tag with named `'' @ tag @ ''`'')] c)"

text \<open>
  \<open>_transfer_owner\<close>: \<open>member\<close> is the new owner's id and \<open>str(member)\<close>; \<open>confirm\<close> is
  \<open>view.value\<close> after the wait.
\<close>

definition transfer_owner :: "ctx \<Rightarrow> string \<Rightarrow> nat \<times> string \<Rightarrow> bool option \<Rightarrow> collection \<Rightarrow> collection result" where
  "transfer_owner cx tag member confirm c =
     (case find_one (id_is (Str tag)) c of
        Some data \<Rightarrow>
          if owner data \<noteq> author_id cx then
            returned [Reply (channel cx) (author_mention cx @ '' you don't own this tag'')] c
          else
            (let ask = Reply (channel cx) (author_mention cx @
                   '' are you sure to transfer the tag ownership to **'' @ snd member @
                   ''**? This process is irreversible!'')
             in case confirm of
                  None \<Rightarrow> returned [ask, RefReply (author_mention cx @ '' you did not responds on time'')] c
                | Some True \<Rightarrow>
                    returned [ask, RefReply (author_mention cx @
                        '' tag ownership successfully transfered to **'' @ snd member @ ''**'')]
                      (update_one (id_is (Str tag)) (\<lambda>d. d\<lparr>owner := fst member\<rparr>) c)
                | Some False \<Rightarrow>
                    returned [ask, RefReply (author_mention cx @ '' ok! reverting the process!'')] c)
      | None \<Rightarrow>
          returned [Reply (channel cx) (author_mention cx @ '' No tag with named `'' @ tag @ ''`'')] c)"

definition toggle_nsfw :: "ctx \<Rightarrow> string \<Rightarrow> collection \<Rightarrow> collection result" where
  "toggle_nsfw cx tag c =
     (case find_one (id_is (Str tag)) c of
        Some data \<Rightarrow>
          if owner data \<noteq> author_id cx then
            returned [Reply (channel cx) (author_mention cx @ '' you don't own this tag'')] c
          else
            (let nsfw_new = (\<not> nsfw data)
             in returned [Reply (channel cx) (author_mention cx @ '' NSFW status of tag named `'' @ tag @
                            ''` is set to **'' @ str_bool nsfw_new @ ''**'')]
                  (update_one (id_is (Str tag)) (\<lambda>d. d\<lparr>nsfw := nsfw_new\<rparr>) c))
      | None \<Rightarrow>
          returned [Reply (channel cx) (author_mention cx @ '' No tag with named `'' @ tag @ ''`'')] c)"

text \<open>\<open>_view_tag\<close> has no branch for a missing tag: it then sends nothing.\<close>

definition view_tag :: "ctx \<Rightarrow> string \<Rightarrow> collection \<Rightarrow> collection result" where
  "view_tag cx tag c =
     (case find_one (id_is (Str tag)) c of
        Some data \<Rightarrow>
          (let owner_m = get_member cx (owner data);
               claimable = (owner_m = None);
               em = \<lparr>title = ''Tag: '' @ tag, description = [],
                     embed_fields =
                       [(''Owner'', ''**'' @ (case owner_m of Some m \<Rightarrow> m | None \<Rightarrow> ''None'') @ ''** ''),
                        (''Created At?'', ''<t:'' @ str_int (created_at data) @ ''>''),
                        (''Text Length'', str_nat (length (text' data))),
                        (''Is NSFW?'', str_bool (nsfw data)),
                        (''Tag Used'', str_int (count data)),
                        (''Can Claim?'', str_bool claimable)],
                     image = None, footer = author_str cx\<rparr>
           in returned [ReplyEmbed (channel cx) em] c)
      | None \<Rightarrow> returned [] c)"

text \<open>\<open>_show_all_tags\<close>: one numbered line per document, handed to the paginator.\<close>

definition show_all_tags :: "ctx \<Rightarrow> collection \<Rightarrow> collection result" where
  "show_all_tags cx c =
     returned [Paginate (map (\<lambda>(i, data). ''`'' @ str_nat i @ ''` '' @ id' data)
                 (zip [1 ..< Suc (length c)] c))] c"

text \<open>Every handler of the module that works on the tag collection, with its arguments.\<close>

datatype tag_op =
    ShowTag string bool
  | CreateTag string string "bool option" int
  | DeleteTag string
  | NameEdit string string
  | TextEdit string string
  | ClaimOwner string
  | TransferOwner string "nat \<times> string" "bool option"
  | ToggleNsfw string
  | ViewTag string
  | ShowAllTags

fun run_op :: "bool \<Rightarrow> ctx \<Rightarrow> tag_op \<Rightarrow> collection \<Rightarrow> collection result" where
  "run_op rejects cx (ShowTag tag msg_ref) c = show_tag cx tag msg_ref c"
| "run_op rejects cx (CreateTag tag txt prompt now) c = create_tag cx tag txt prompt now c"
| "run_op rejects cx (DeleteTag tag) c = delete_tag rejects cx tag c"
| "run_op rejects cx (NameEdit tag name) c = name_edit cx tag name c"
| "run_op rejects cx (TextEdit tag txt) c = text_edit cx tag txt c"
| "run_op rejects cx (ClaimOwner tag) c = claim_owner cx tag c"
| "run_op rejects cx (TransferOwner tag member confirm) c = transfer_owner cx tag member confirm c"
| "run_op rejects cx (ToggleNsfw tag) c = toggle_nsfw cx tag c"
| "run_op rejects cx (ViewTag tag) c = view_tag cx tag c"
| "run_op rejects cx ShowAllTags c = show_all_tags cx c"

section \<open>The telephone relay: \<open>fun.dial\<close> in \<open>cogs/fun/__init__.py\<close>\<close>

text \<open>
  The \<open>telephone\<close> collection holds one document per guild, keyed by the guild id
  (\<open>_id\<close>); it is a map from guild ids to documents, and \<open>target_guild['_id']\<close> is the
  key the document was found under.
\<close>

record telephone =
  tel_channel :: nat
  is_line_busy :: bool
  blocked :: "nat list"
  pingrole :: "nat option"
  memberping :: "nat option"

type_synonym teldb = "nat \<rightharpoonup> telephone"

text \<open>
  Modelled from the spec: \<open>telephone_update\<close> of \<open>utilities/database.py\<close>, which is not
  among the source files. The claims read \<open>telephone_update(g, 'is_line_busy', v)\<close> as
  setting the field \<open>is_line_busy\<close> of guild \<open>g\<close>'s document to \<open>v\<close>; a guild without
  a document keeps none. \<open>dial\<close> passes no other field name.
\<close>

definition telephone_update :: "nat \<Rightarrow> string \<Rightarrow> bool \<Rightarrow> teldb \<Rightarrow> teldb" where
  "telephone_update g event v db =
     (case db g of
        Some doc \<Rightarrow> if event = ''is_line_busy'' then db(g \<mapsto> doc\<lparr>is_line_busy := v\<rparr>) else db
      | None \<Rightarrow> db)"

text \<open>
  The bot's caches: \<open>get_channel\<close> gives the channel with an id, or \<open>None\<close>;
  \<open>get_guild_name g\<close> is \<open>self.bot.get_guild(g).name\<close>. The guild looked up is always
  the \<open>server\<close> argument, which the command's converter took from the same cache.
\<close>

record bot =
  get_channel :: "nat \<Rightarrow> nat option"
  get_guild_name :: "nat \<Rightarrow> string"

record message =
  content :: string
  clean_content :: string
  msg_channel :: nat
  msg_author_bot :: bool
  msg_author_name :: string
  msg_author_discriminator :: string

text \<open>
  What the event loop brings while the handler waits: a message, or 60 seconds without
  one that passes the check (both waits use the same timeout). \<open>wait_for\<close> hands out the
  first message its check accepts and skips the others; when nothing is left to come,
  the wait times out. It returns the events that are still to come.
\<close>

datatype event = Timeout | Message message

fun wait_for :: "(message \<Rightarrow> bool) \<Rightarrow> event list \<Rightarrow> message option \<times> event list" where
  "wait_for check [] = (None, [])"
| "wait_for check (Timeout # es) = (None, es)"
| "wait_for check (Message m # es) = (if check m then (Some m, es) else wait_for check es)"

text \<open>The check of the first wait (line 699) and the check of the relay loop (line 735).\<close>

definition check_answer :: "nat \<Rightarrow> nat \<Rightarrow> message \<Rightarrow> bool" where
  "check_answer caller_channel target_channel m =
     (lower (content m) \<in> set [''pickup'', ''hangup'']
      \<and> (msg_channel m = caller_channel \<or> msg_channel m = target_channel))"

definition check_talk :: "nat \<Rightarrow> nat \<Rightarrow> message \<Rightarrow> bool" where
  "check_talk caller_channel target_channel m =
     (msg_channel m = target_channel \<or> (msg_channel m = caller_channel \<and> \<not> msg_author_bot m))"

text \<open>\<open>random.choice(['hi', 'hello', 'heya'])\<close>, from a random draw \<open>r\<close>.\<close>

definition greeting :: "nat \<Rightarrow> string" where
  "greeting r = [''hi'', ''hello'', ''heya''] ! (r mod 3)"

text \<open>Both lines are marked free or busy: the two \<open>telephone_update\<close> calls.\<close>

definition set_busy :: "ctx \<Rightarrow> nat \<Rightarrow> bool \<Rightarrow> teldb \<Rightarrow> teldb" where
  "set_busy cx number v db =
     telephone_update number ''is_line_busy'' v
       (telephone_update (guild_id cx) ''is_line_busy'' v db)"

text \<open>
  The \<open>except\<close> branch of a wait, the same text at lines 705 to 715 and 744 to 754:
  a notice to both channels, both lines free, return.
\<close>

definition line_inactive :: "bot \<Rightarrow> ctx \<Rightarrow> nat \<Rightarrow> nat \<Rightarrow> teldb \<Rightarrow> teldb result" where
  "line_inactive b cx number target_channel db =
     returned
       [Send target_channel
          (''Line disconnected from **'' @ str_nat (guild_id cx) @ '' ('' @ guild_name cx @
           '')**. Reason: Line Inactive for more than 60 seconds''),
        Reply (channel cx)
          (''Line disconnected from **'' @ str_nat number @ '' ('' @ get_guild_name b number @
           '')**. Reason: Line Inactive for more than 60 seconds'')]
       (set_busy cx number False db)"

definition relay_text :: "message \<Rightarrow> string" where
  "relay_text m =
     ''**'' @ msg_author_name m @ ''#'' @ msg_author_discriminator m @ ''** '' @ clean_content m"

text \<open>Lines 763 to 771: a message goes to the other side's channel.\<close>

definition relay :: "ctx \<Rightarrow> nat \<Rightarrow> message \<Rightarrow> action list" where
  "relay cx target_channel m =
     (if msg_channel m = target_channel then [Send (channel cx) (relay_text m)]
      else if msg_channel m = channel cx then [Send target_channel (relay_text m)]
      else [])"

text \<open>
  Discord refuses a message text of more than 2000 characters: the send raises
  \<open>discord.HTTPException\<close>. The relayed text repeats what a user wrote behind the
  author's name, so it can be longer than that; every other text of the handler is
  short. Whether the bot may still send to a channel is not part of the model.
\<close>

definition send_fails :: "string \<Rightarrow> bool" where
  "send_fails t = (2000 < length t)"

definition duration_reached :: "ctx \<Rightarrow> nat \<Rightarrow> action list" where
  "duration_reached cx target_channel =
     [Send (channel cx) ''Disconnected. Call duration reached its maximum limit'',
      Send target_channel ''Disconnected. Call duration reached its maximum limit'']"

lemma wait_for_shorter:
  "wait_for check es = (Some m, rest) \<Longrightarrow> length rest < length es"
  by (induction check es rule: wait_for.induct) (auto split: if_splits)

text \<open>
  The loop of lines 733 to 777. \<open>clock k\<close> is the time at the end of round \<open>k\<close> of the
  loop, as a real number (round 0 is the pickup): what \<open>time.time()\<close> returns there.
  The handler reads it at the pickup (\<open>ini\<close> is that reading plus 120) and at the end of
  every round that has relayed a message; a round that ends by the timeout or a
  \<open>hangup\<close> does not read it. No \<open>try\<close> surrounds the sends of lines 764 and 769: when
  one raises, the handler ends there, with the telephone documents as they are, and
  \<open>with_type\<close> around \<open>dial\<close> lets the exception pass.
\<close>

function relay_loop ::
  "bot \<Rightarrow> ctx \<Rightarrow> nat \<Rightarrow> nat \<Rightarrow> real \<Rightarrow> (nat \<Rightarrow> real) \<Rightarrow> nat \<Rightarrow> event list \<Rightarrow> teldb \<Rightarrow> teldb result" where
  "relay_loop b cx number target_channel ini clock k es db =
     (case wait_for (check_talk (channel cx) target_channel) es of
        (None, rest) \<Rightarrow> line_inactive b cx number target_channel db
      | (Some talk_message, rest) \<Rightarrow>
          if lower (content talk_message) = ''hangup'' then
            returned [Send (channel cx) ''Disconnected'', Send target_channel ''Disconnected'']
              (set_busy cx number False db)
          else if relay cx target_channel talk_message \<noteq> [] \<and> send_fails (relay_text talk_message) then
            raised ''HTTPException'' [] db
          else if ini - clock k \<le> 60 then
            returned (relay cx target_channel talk_message @ duration_reached cx target_channel)
              (set_busy cx number False db)
          else
            after (relay cx target_channel talk_message)
              (relay_loop b cx number target_channel ini clock (Suc k) rest db))"
  by pat_completeness auto
termination
  by (relation "measure (\<lambda>(b, cx, number, target_channel, ini, clock, k, es, db). length es)")
     (auto dest: wait_for_shorter [OF sym])

declare relay_loop.simps [simp del]

text \<open>
  \<open>dial\<close>. \<open>server\<close> is the id of the guild dialled (\<open>server is ctx.guild\<close> compares the
  cached guild objects, one per id). The \<open>try\<close> block of lines 691 to 697 calls
  \<open>delete\<close> on a coroutine that was never awaited; whatever it raises is swallowed and
  nothing is sent, so it leaves no trace here. \<open>r1\<close> and \<open>r2\<close> are the two random draws,
  \<open>clock 0\<close> the reading of line 732.
\<close>

definition dial ::
  "bot \<Rightarrow> ctx \<Rightarrow> nat \<Rightarrow> nat \<Rightarrow> nat \<Rightarrow> (nat \<Rightarrow> real) \<Rightarrow> event list \<Rightarrow> teldb \<Rightarrow> teldb result" where
  "dial b cx server r1 r2 clock es db =
     (if server = guild_id cx then returned [Send (channel cx) ''Can't make a self call''] db
      else
        let number = server in
        case db (guild_id cx) of
          None \<Rightarrow>
            returned [Send (channel cx) (author_mention cx @
              '' no telephone line channel is set for this server, ask your Server Manager to fix this.'')] db
        | Some self_guild \<Rightarrow>
           (case db number of
              None \<Rightarrow>
                returned [Send (channel cx) (author_mention cx @
                  '' no telephone line channel is set for the **'' @ str_nat number @
                  ''** server, or the number you entered do not match with any other server!'')] db
            | Some target_guild \<Rightarrow>
                if is_line_busy target_guild then
                  returned [Send (channel cx)
                    (''Can not make a connection to **'' @ str_nat number @ '' ('' @
                     get_guild_name b number @ '')**. Line busy!'')] db
                else
                  (case get_channel b (tel_channel target_guild) of
                     None \<Rightarrow>
                       returned [Send (channel cx)
                         ''Calling failed! Possible reasons: `Channel deleted`, missing `View Channels` permission.''] db
                   | Some target_channel \<Rightarrow>
                       if number \<in> set (blocked self_guild) \<or> guild_id cx \<in> set (blocked target_guild) then
                         returned [Send (channel cx)
                           ''Calling failed! Possible reasons: They blocked You, You blocked Them.''] db
                       else
                         after
                           [Send (channel cx)
                              (''Calling to **'' @ str_nat number @ '' ('' @ get_guild_name b number @
                               '')** ... Waiting for the response ...''),
                            Send target_channel
                              (''**Incoming call from '' @ str_nat (guild_id cx) @ ''. '' @ guild_name cx @
                               '' ...**'' @ [CHR 0x0A] @ ''`pickup` to pickup | `hangup` to reject'')]
                           (case wait_for (check_answer (channel cx) target_channel) es of
                              (None, rest) \<Rightarrow> line_inactive b cx number target_channel db
                            | (Some talk, rest) \<Rightarrow>
                                if lower (content talk) = ''hangup'' then
                                  returned [Send (channel cx) ''Disconnected'',
                                            Send target_channel ''Disconnected'']
                                    (set_busy cx number False db)
                                else if lower (content talk) = ''pickup'' then
                                  after
                                    [Send (channel cx) (''Connected. Say '' @ greeting r1),
                                     Send target_channel (''Connected. Say '' @ greeting r2)]
                                    (relay_loop b cx number target_channel (clock 0 + 120) clock 1 rest
                                       (set_busy cx number True db))
                                else returned [] db))))"

section \<open>The fact command: \<open>fun.animal_fact\<close>\<close>

text \<open>
  \<open>str.title()\<close> on ASCII text: the first letter of every run of letters becomes a
  capital, the other letters small. The handler calls it on one of six ASCII names only.
\<close>

definition is_letter :: "char \<Rightarrow> bool" where
  "is_letter c = (let n = (of_char c :: nat) in (65 \<le> n \<and> n \<le> 90) \<or> (97 \<le> n \<and> n \<le> 122))"

definition upper_char :: "char \<Rightarrow> char" where
  "upper_char c = (let n = (of_char c :: nat) in if 97 \<le> n \<and> n \<le> 122 then char_of (n - 32) else c)"

fun title_from :: "bool \<Rightarrow> string \<Rightarrow> string" where
  "title_from inside [] = []"
| "title_from inside (c # cs) =
     (if is_letter c then (if inside then lower_char c else upper_char c) # title_from True cs
      else c # title_from False cs)"

definition title_str :: "string \<Rightarrow> string" where
  "title_str s = title_from False s"

text \<open>
  A response of the HTTP API: its status and the string members of its JSON body.
  \<open>request url\<close> is the response a GET of \<open>url\<close> gets; a request that gets no response
  at all is not modelled.
\<close>

record http_response =
  status :: nat
  json :: "(string \<times> string) list"

definition animal_fact :: "(string \<Rightarrow> http_response) \<Rightarrow> ctx \<Rightarrow> string \<Rightarrow> unit result" where
  "animal_fact request cx animal_arg =
     (let animal = lower animal_arg in
      if animal \<in> set [''dog'', ''cat'', ''panda'', ''fox'', ''bird'', ''koala''] then
        (let fact_url = ''https://some-random-api.ml/facts/'' @ animal;
             image_url = ''https://some-random-api.ml/img/'' @
                           (if animal = ''bird'' then ''birb'' else animal);
             response = request image_url
         in case (if status response = 200
                  then (case map_of (json response) ''link'' of
                          Some l \<Rightarrow> Inr (Some l) | None \<Rightarrow> Inl ''KeyError'')
                  else Inr None) of
              Inl e \<Rightarrow> raised e [] ()
            | Inr image_link \<Rightarrow>
                (let response = request fact_url in
                 if status response = 200 then
                   (case map_of (json response) ''fact'' of
                      None \<Rightarrow> raised ''KeyError'' [] ()
                    | Some fact_text \<Rightarrow>
                       (case image_link of
                          Some l \<Rightarrow>
                            returned [ReplyEmbed (channel cx)
                              \<lparr>title = title_str animal @ '' fact'', description = fact_text,
                               embed_fields = [], image = Some l, footer = []\<rparr>] ()
                        | None \<Rightarrow>
                            returned [Reply (channel cx) (author_mention cx @ '' API returned a '' @
                              str_nat (status response) @ '' status.'')] ()))
                 else
                   returned [Reply (channel cx) (author_mention cx @
                     '' no facts are available for that animal. Available animals: `dog`, `cat`, `panda`, `fox`, `bird`, `koala`'')] ()))
      else returned [] ())"

section \<open>Base64: \<open>fun.encode\<close> and \<open>fun.decode\<close>\<close>

text \<open>
  Bytes are numbers below 256. \<open>str.encode("ascii")\<close> and \<open>bytes.decode("ascii")\<close>
  raise on anything from 128 on.
\<close>

definition encode_ascii :: "string \<Rightarrow> string + nat list" where
  "encode_ascii s =
     (if list_all (\<lambda>c. (of_char c :: nat) < 128) s then Inr (map of_char s)
      else Inl ''UnicodeEncodeError'')"

definition decode_ascii :: "nat list \<Rightarrow> string + string" where
  "decode_ascii bs =
     (if list_all (\<lambda>b. b < 128) bs then Inr (map char_of bs) else Inl ''UnicodeDecodeError'')"

text \<open>
  The standard library's \<open>base64.b64encode\<close> and \<open>base64.b64decode\<close> (which the
  handlers call with their defaults), after RFC 4648 and CPython's \<open>binascii\<close>.
\<close>

definition b64_table :: "nat list" where
  "b64_table = map of_char ''ABCDEFGHIJKLMNOPQRSTUVWXYZabcdefghijklmnopqrstuvwxyz0123456789+/''"

fun index_of :: "'a \<Rightarrow> 'a list \<Rightarrow> nat option" where
  "index_of x [] = None"
| "index_of x (y # ys) = (if x = y then Some 0 else map_option Suc (index_of x ys))"

definition b64_value :: "nat \<Rightarrow> nat option" where
  "b64_value c = index_of c b64_table"

definition b64_pad :: nat where
  "b64_pad = 61"

text \<open>Three bytes give four characters; one or two bytes left over are padded with \<open>=\<close>.\<close>

fun b64encode :: "nat list \<Rightarrow> nat list" where
  "b64encode [] = []"
| "b64encode [a] =
     [b64_table ! (a div 4), b64_table ! (a mod 4 * 16), b64_pad, b64_pad]"
| "b64encode [a, b] =
     [b64_table ! (a div 4), b64_table ! (a mod 4 * 16 + b div 16),
      b64_table ! (b mod 16 * 4), b64_pad]"
| "b64encode (a # b # c # bs) =
     [b64_table ! (a div 4), b64_table ! (a mod 4 * 16 + b div 16),
      b64_table ! (b mod 16 * 4 + c div 64), b64_table ! (c mod 64)] @ b64encode bs"

text \<open>
  The decoder in its default, lenient mode: a character outside the alphabet is
  skipped, a padding character ends the input once it completes a group of four, and
  input that stops inside a group is an error. \<open>quad_pos\<close> is the position in the
  group, \<open>leftchar\<close> the bits not yet written, \<open>pads\<close> the padding characters seen
  since the last data character, \<open>out\<close> the bytes written.
\<close>

fun a2b_base64 :: "nat list \<Rightarrow> nat \<Rightarrow> nat \<Rightarrow> nat \<Rightarrow> nat list \<Rightarrow> string + nat list" where
  "a2b_base64 [] quad_pos leftchar pads out =
     (if quad_pos = 0 then Inr out else Inl ''binascii.Error'')"
| "a2b_base64 (c # cs) quad_pos leftchar pads out =
     (if c = b64_pad then
        (if quad_pos \<ge> 2 then
           (if quad_pos + (pads + 1) \<ge> 4 then Inr out
            else a2b_base64 cs quad_pos leftchar (pads + 1) out)
         else a2b_base64 cs quad_pos leftchar pads out)
      else
        (case b64_value c of
           None \<Rightarrow> a2b_base64 cs quad_pos leftchar pads out
         | Some v \<Rightarrow>
             if quad_pos = 0 then a2b_base64 cs 1 v 0 out
             else if quad_pos = 1 then
               a2b_base64 cs 2 (v mod 16) 0 (out @ [(leftchar * 4 + v div 16) mod 256])
             else if quad_pos = 2 then
               a2b_base64 cs 3 (v mod 4) 0 (out @ [(leftchar * 16 + v div 4) mod 256])
             else a2b_base64 cs 0 0 0 (out @ [(leftchar * 64 + v) mod 256])))"

definition b64decode :: "nat list \<Rightarrow> string + nat list" where
  "b64decode s = a2b_base64 s 0 0 0 []"

text \<open>\<open>format(n, 'b')\<close>: the binary digits of \<open>n\<close>.\<close>

fun bin_nat :: "nat \<Rightarrow> string" where
  "bin_nat n =
     (if n < 2 then [char_of (48 + n)] else bin_nat (n div 2) @ [char_of (48 + n mod 2)])"

declare bin_nat.simps [simp del]

definition fence :: "string \<Rightarrow> string" where
  "fence s = ''```'' @ [CHR 0x0A] @ s @ [CHR 0x0A] @ ''```''"

text \<open>Lines 147 to 151 of \<open>encode\<close> and lines 125 to 129 of \<open>decode\<close>: the text each computes.\<close>

definition encode_text :: "string \<Rightarrow> string + string" where
  "encode_text sample_string =
     (case encode_ascii sample_string of
        Inl e \<Rightarrow> Inl e
      | Inr sample_string_bytes \<Rightarrow> decode_ascii (b64encode sample_string_bytes))"

definition decode_text :: "string \<Rightarrow> string + string" where
  "decode_text base64_string =
     (case encode_ascii base64_string of
        Inl e \<Rightarrow> Inl e
      | Inr base64_bytes \<Rightarrow>
          (case b64decode base64_bytes of
             Inl e \<Rightarrow> Inl e
           | Inr sample_string_bytes \<Rightarrow> decode_ascii sample_string_bytes))"

definition encode :: "ctx \<Rightarrow> string \<Rightarrow> unit result" where
  "encode cx string =
     (case encode_text string of
        Inl e \<Rightarrow> raised e [] ()
      | Inr base64_string \<Rightarrow>
          (let res = concat (map (\<lambda>i. bin_nat (of_char i)) string) in
           case author_avatar cx of
             None \<Rightarrow> raised ''AttributeError'' [] ()
           | Some icon_url \<Rightarrow>
               returned [SendEmbed (channel cx)
                 \<lparr>title = ''Encoding...'', description = [],
                  embed_fields =
                    [(''Normal [string] text:'', fence string),
                     (''Encoded [base64]:'', fence base64_string),
                     (''Encoded [binary]:'', fence res)],
                  image = None, footer = author_name cx\<rparr>] ()))"

definition decode :: "ctx \<Rightarrow> string \<Rightarrow> unit result" where
  "decode cx string =
     (case decode_text string of
        Inl e \<Rightarrow> raised e [] ()
      | Inr sample_string \<Rightarrow>
          (case author_avatar cx of
             None \<Rightarrow> raised ''AttributeError'' [] ()
           | Some icon_url \<Rightarrow>
               returned [SendEmbed (channel cx)
                 \<lparr>title = ''Decoding...'', description = [],
                  embed_fields =
                    [(''Encoded text:'', fence string),
                     (''Decoded text:'', fence sample_string)],
                  image = None, footer = author_name cx\<rparr>] ()))"

section \<open>Waiting for several events: \<open>Context.multiple_wait_for\<close>\<close>

text \<open>
  The \<open>events\<close> argument is a list of pairs of an event name and a check, or a dict from
  event names to checks. A dict is an association list with distinct keys, in insertion
  order; \<open>d.items()\<close> lists its pairs in that order.
\<close>

datatype 'c events = EventList "(string \<times> 'c) list" | EventDict "(string, 'c) alist"

definition items :: "(string, 'c) alist \<Rightarrow> (string \<times> 'c) list" where
  "items d = DAList.impl_of d"

text \<open>The coroutine \<open>self.wait_for(event, check=check, timeout=timeout, **kwargs)\<close>.\<close>

record ('c, 'k) wait_call =
  wait_event :: string
  wait_check :: 'c
  wait_timeout :: "real option"
  wait_kwargs :: 'k

datatype return_when = FIRST_COMPLETED | ALL_COMPLETED | FIRST_EXCEPTION

text \<open>
  \<open>getattr(asyncio, return_when, "FIRST_COMPLETED")\<close>: each of the three names the
  signature allows is a constant of \<open>asyncio\<close> whose value is the name itself.
\<close>

definition getattr_asyncio :: "return_when \<Rightarrow> return_when" where
  "getattr_asyncio return_when = return_when"

text \<open>
  \<open>asyncio_wait\<close> stands for \<open>asyncio.wait\<close>, which belongs to the standard library:
  what it returns (or raises) for the coroutines, the timeout and the mode it is given.
  The coroutines are kept in the order of the events; Python collects them in a set.
\<close>

definition multiple_wait_for ::
  "(('c, 'k) wait_call list \<Rightarrow> real option \<Rightarrow> return_when \<Rightarrow> 'r) \<Rightarrow>
   'c events \<Rightarrow> return_when \<Rightarrow> real option \<Rightarrow> 'k \<Rightarrow> 'r" where
  "multiple_wait_for asyncio_wait events return_when timeout kwargs =
     (let events_list = (case events of EventDict d \<Rightarrow> items d | EventList l \<Rightarrow> l);
          coroutines =
            map (\<lambda>(event, check).
                   \<lparr>wait_event = event, wait_check = check, wait_timeout = timeout,
                    wait_kwargs = kwargs\<rparr>) events_list
      in asyncio_wait coroutines timeout (getattr_asyncio return_when))"

section \<open>Example inputs\<close>

text \<open>
  A caller in guild 7 (channel 10) dials guild 8 (channel 20); both guilds have a
  telephone document. The example clock advances 50 seconds per reading.
\<close>

definition ex_ctx :: ctx where
  "ex_ctx = \<lparr>author_id = 1, author_name = ''ann'', author_mention = ''<@1>'',
     author_str = ''ann#0001'', author_avatar = Some ''https://cdn.example/a.png'',
     channel = 10, channel_nsfw = False, guild_id = 7, guild_name = ''Home'',
     get_member = Map.empty\<rparr>"

definition ex_channels :: "nat \<Rightarrow> nat option" where
  "ex_channels c = (if c = 20 then Some 20 else None)"

definition ex_names :: "nat \<Rightarrow> string" where
  "ex_names g = (if g = 8 then ''Away'' else ''Home'')"

definition ex_bot :: bot where
  "ex_bot = \<lparr>get_channel = ex_channels, get_guild_name = ex_names\<rparr>"

definition ex_line :: "nat \<Rightarrow> bool \<Rightarrow> telephone" where
  "ex_line c busy =
     \<lparr>tel_channel = c, is_line_busy = busy, blocked = [], pingrole = None, memberping = None\<rparr>"

definition ex_db :: teldb where
  "ex_db = [7 \<mapsto> ex_line 10 False, 8 \<mapsto> ex_line 20 False]"

definition ex_busy_db :: teldb where
  "ex_busy_db = [7 \<mapsto> ex_line 10 True, 8 \<mapsto> ex_line 20 True]"

definition ex_msg :: "string \<Rightarrow> nat \<Rightarrow> message" where
  "ex_msg t c =
     \<lparr>content = t, clean_content = t, msg_channel = c, msg_author_bot = False,
      msg_author_name = ''bob'', msg_author_discriminator = ''0002''\<rparr>"

definition ex_clock :: "nat \<Rightarrow> real" where
  "ex_clock k = 50 * real k"


definition ex_long :: string where
  "ex_long = replicate 2000 CHR ''a''"

text \<open>A tag collection with two documents; the first belongs to the example author.\<close>

definition ex_doc :: "string \<Rightarrow> nat \<Rightarrow> tag_doc" where
  "ex_doc n u = \<lparr>id' = n, text' = ''hello'', count = 3, owner = u, nsfw = False, created_at = 1600000000\<rparr>"

definition ex_coll :: collection where
  "ex_coll = [ex_doc ''greet'' 1, ex_doc ''rules'' 2]"

text \<open>An API that answers every request with status 200 and a full body.\<close>

definition ex_request :: "string \<Rightarrow> http_response" where
  "ex_request url = \<lparr>status = 200, json = [(''link'', ''https://img.example/1.png''), (''fact'', ''Lions roar.'')]\<rparr>"

section \<open>Properties of the tag handlers\<close>

lemma find_one_None_iff: "find_one (id_is (Str n)) c = None \<longleftrightarrow> n \<notin> set (map id' c)"
  by (induction c) (auto simp: find_one_def)

lemma update_one_same_ids:
  "(\<And>d. id' (u d) = id' d) \<Longrightarrow> map id' (update_one q u c) = map id' c"
  by (induction c) auto

lemma delete_one_handle: "delete_one (id_is TagsHandle) c = c"
  by (induction c) auto

lemma rename_ids:
  "set (map id' (update_one q (\<lambda>d. d\<lparr>id' := name\<rparr>) c)) \<subseteq> insert name (set (map id' c))"
  by (induction c) auto

lemma rename_distinct:
  "distinct (map id' c) \<Longrightarrow> name \<notin> set (map id' c) \<Longrightarrow>
   distinct (map id' (update_one q (\<lambda>d. d\<lparr>id' := name\<rparr>) c))"
proof (induction c)
  case Nil
  then show ?case by simp
next
  case (Cons d ds)
  show ?case
  proof (cases "q d")
    case True
    with Cons.prems show ?thesis by auto
  next
    case False
    have "id' d \<notin> set (map id' (update_one q (\<lambda>d. d\<lparr>id' := name\<rparr>) ds))"
      using rename_ids[of q name ds] Cons.prems by auto
    with False Cons show ?thesis by auto
  qed
qed

lemma create_tag_distinct:
  "distinct (map id' c) \<Longrightarrow> distinct (map id' (store (create_tag cx tag txt prompt now c)))"
  by (auto simp: create_tag_def returned_def raised_def insert_one_def find_one_None_iff Let_def
           split: option.splits)

lemma name_edit_distinct:
  "distinct (map id' c) \<Longrightarrow> distinct (map id' (store (name_edit cx tag name c)))"
  by (auto simp: name_edit_def returned_def find_one_None_iff intro: rename_distinct
           split: option.splits)

lemma run_op_distinct:
  "distinct (map id' c) \<Longrightarrow> distinct (map id' (store (run_op rejects cx op c)))"
proof (cases op)
  case (CreateTag tag body prompt now)
  then show "distinct (map id' c) \<Longrightarrow> ?thesis" by (simp add: create_tag_distinct)
next
  case (NameEdit tag name)
  then show "distinct (map id' c) \<Longrightarrow> ?thesis" by (simp add: name_edit_distinct)
next
  case (ShowTag tag r)
  then show "distinct (map id' c) \<Longrightarrow> ?thesis"
    by (simp add: show_tag_def returned_def Let_def update_one_same_ids)
next
  case (DeleteTag tag)
  then show "distinct (map id' c) \<Longrightarrow> ?thesis"
    by (simp add: delete_tag_def returned_def raised_def delete_one_handle split: option.splits)
next
  case (TextEdit tag body)
  then show "distinct (map id' c) \<Longrightarrow> ?thesis"
    by (simp add: text_edit_def returned_def update_one_same_ids split: option.splits)
next
  case (ClaimOwner tag)
  then show "distinct (map id' c) \<Longrightarrow> ?thesis"
    by (simp add: claim_owner_def returned_def update_one_same_ids split: option.splits)
next
  case (TransferOwner tag member confirm)
  then show "distinct (map id' c) \<Longrightarrow> ?thesis"
    by (simp add: transfer_owner_def returned_def Let_def update_one_same_ids split: option.splits bool.splits)
next
  case (ToggleNsfw tag)
  then show "distinct (map id' c) \<Longrightarrow> ?thesis"
    by (simp add: toggle_nsfw_def returned_def Let_def update_one_same_ids split: option.splits)
next
  case (ViewTag tag)
  then show "distinct (map id' c) \<Longrightarrow> ?thesis"
    by (simp add: view_tag_def returned_def Let_def split: option.splits)
next
  case ShowAllTags
  then show "distinct (map id' c) \<Longrightarrow> ?thesis"
    by (simp add: show_all_tags_def returned_def)
qed

lemma update_one_length: "length (update_one q u c) = length c"
  by (induction c) auto

lemma update_one_nth:
  "i < length c \<Longrightarrow> update_one q u c ! i = c ! i \<or> update_one q u c ! i = u (c ! i)"
  by (induction c arbitrary: i) (auto simp: nth_Cons')

lemma show_tag_store:
  "store (show_tag cx tag r c) = update_one (id_is (Str tag)) (\<lambda>d. d\<lparr>count := count d + 1\<rparr>) c"
  by (simp add: show_tag_def returned_def Let_def)

text \<open>
  Claim C4 says that \<open>_delete_tag\<close>, called by the owner of an existing tag, removes the
  document with that id. The code does not: its delete filters on the database handle.
  Whatever the driver does with that filter, the collection stays as it was; here for
  the owner of the tag \<open>greet\<close>.
\<close>

theorem delete_tag_leaves_document:
  "find_one (id_is (Str ''greet'')) ex_coll = Some (ex_doc ''greet'' 1)
   \<and> owner (ex_doc ''greet'' 1) = author_id ex_ctx
   \<and> delete_tag False ex_ctx ''greet'' ex_coll =
       returned [Reply 10 ''<@1> tag deleted successfully''] ex_coll
   \<and> delete_tag True ex_ctx ''greet'' ex_coll = raised ''InvalidDocument'' [] ex_coll"
  by (simp add: delete_tag_def find_one_def ex_coll_def ex_doc_def ex_ctx_def delete_one_handle)

text \<open>
  Claim C6: \<open>_show_tag\<close> leaves every field but \<open>count\<close> of every document as it was,
  whatever the tag, the channel and the way of replying: the collection keeps its
  length, and the document at each position keeps its id, text, owner, NSFW mark and
  creation time.
\<close>

theorem show_tag_frame:
  "length (store (show_tag cx tag msg_ref c)) = length c \<and>
   (\<forall>i < length c.
      id' (store (show_tag cx tag msg_ref c) ! i) = id' (c ! i) \<and>
      text' (store (show_tag cx tag msg_ref c) ! i) = text' (c ! i) \<and>
      owner (store (show_tag cx tag msg_ref c) ! i) = owner (c ! i) \<and>
      nsfw (store (show_tag cx tag msg_ref c) ! i) = nsfw (c ! i) \<and>
      created_at (store (show_tag cx tag msg_ref c) ! i) = created_at (c ! i))"
proof (intro conjI allI impI)
  show "length (store (show_tag cx tag msg_ref c)) = length c"
    by (simp add: show_tag_store update_one_length)
next
  fix i assume "i < length c"
  from update_one_nth[OF this, of "id_is (Str tag)" "\<lambda>d. d\<lparr>count := count d + 1\<rparr>"]
  show "id' (store (show_tag cx tag msg_ref c) ! i) = id' (c ! i)"
   and "text' (store (show_tag cx tag msg_ref c) ! i) = text' (c ! i)"
   and "owner (store (show_tag cx tag msg_ref c) ! i) = owner (c ! i)"
   and "nsfw (store (show_tag cx tag msg_ref c) ! i) = nsfw (c ! i)"
   and "created_at (store (show_tag cx tag msg_ref c) ! i) = created_at (c ! i)"
    by (auto simp: show_tag_store)
qed

text \<open>The tag \<open>greet\<close> is shown and counted; the document is otherwise the same.\<close>

theorem show_tag_frame_witness:
  "sent (show_tag ex_ctx ''greet'' False ex_coll) = [Send 10 ''hello'']
   \<and> count (store (show_tag ex_ctx ''greet'' False ex_coll) ! 0) = 4
   \<and> length (store (show_tag ex_ctx ''greet'' False ex_coll)) = 2
   \<and> id' (store (show_tag ex_ctx ''greet'' False ex_coll) ! 0) = ''greet''
   \<and> text' (store (show_tag ex_ctx ''greet'' False ex_coll) ! 0) = ''hello''
   \<and> owner (store (show_tag ex_ctx ''greet'' False ex_coll) ! 0) = 1
   \<and> nsfw (store (show_tag ex_ctx ''greet'' False ex_coll) ! 0) = False
   \<and> created_at (store (show_tag ex_ctx ''greet'' False ex_coll) ! 0) = 1600000000"
proof -
  have s: "sent (show_tag ex_ctx ''greet'' False ex_coll) = [Send 10 ''hello'']"
    by (simp add: show_tag_def show_text_def returned_def find_one_def ex_coll_def ex_doc_def ex_ctx_def)
  have n: "count (store (show_tag ex_ctx ''greet'' False ex_coll) ! 0) = 4"
    by (simp add: show_tag_store ex_coll_def ex_doc_def)
  have l: "(0::nat) < length ex_coll" by (simp add: ex_coll_def)
  have d: "ex_coll ! 0 = ex_doc ''greet'' 1" "length ex_coll = 2" by (simp_all add: ex_coll_def)
  show ?thesis
    using show_tag_frame [of ex_ctx "''greet''" False ex_coll] l
    by (simp add: s n d ex_doc_def)
qed

text \<open>
  Claim C9: tag ids stay distinct. \<open>_create_tag\<close> answers that the name already exists
  and changes nothing when a document has the requested id; otherwise it appends the
  new document, or nothing at all when nobody answers the prompt. \<open>_name_edit\<close> answers
  that the name already exists and changes nothing when a document has the new id. So
  each handler of the module, run on a collection whose ids are distinct, leaves the
  ids distinct. A handler is taken as one step: no other handler changes the
  collection between its lookup and its write.
\<close>

theorem tag_ids_stay_distinct:
  "(tag \<in> set (map id' c) \<longrightarrow>
      create_tag cx tag txt prompt now c =
        returned [Reply (channel cx) (author_mention cx @ '' the name `'' @ tag @ ''` already exists'')] c)
   \<and> (tag \<notin> set (map id' c) \<longrightarrow>
      store (create_tag cx tag txt (Some v) now c) =
        c @ [\<lparr>id' = tag, text' = txt, count = 0, owner = author_id cx, nsfw = v, created_at = now\<rparr>]
      \<and> store (create_tag cx tag txt None now c) = c)
   \<and> (name \<in> set (map id' c) \<longrightarrow>
      name_edit cx tag' name c =
        returned [Reply (channel cx) (author_mention cx @ '' that name already exists in the database'')] c)
   \<and> (distinct (map id' c) \<longrightarrow> distinct (map id' (store (run_op rejects cx op c))))"
proof (intro conjI impI)
  assume "tag \<in> set (map id' c)"
  then obtain d where "find_one (id_is (Str tag)) c = Some d"
    using find_one_None_iff[of tag c] by (cases "find_one (id_is (Str tag)) c") auto
  then show "create_tag cx tag txt prompt now c =
      returned [Reply (channel cx) (author_mention cx @ '' the name `'' @ tag @ ''` already exists'')] c"
    by (simp add: create_tag_def)
next
  assume "tag \<notin> set (map id' c)"
  then have n: "find_one (id_is (Str tag)) c = None" by (simp add: find_one_None_iff)
  show "store (create_tag cx tag txt (Some v) now c) =
        c @ [\<lparr>id' = tag, text' = txt, count = 0, owner = author_id cx, nsfw = v, created_at = now\<rparr>]"
    by (simp add: create_tag_def n returned_def insert_one_def Let_def)
  show "store (create_tag cx tag txt None now c) = c"
    by (simp add: create_tag_def n raised_def Let_def)
next
  assume "name \<in> set (map id' c)"
  then obtain d where "find_one (id_is (Str name)) c = Some d"
    using find_one_None_iff[of name c] by (cases "find_one (id_is (Str name)) c") auto
  then show "name_edit cx tag' name c =
        returned [Reply (channel cx) (author_mention cx @ '' that name already exists in the database'')] c"
    by (simp add: name_edit_def)
next
  assume "distinct (map id' c)"
  then show "distinct (map id' (store (run_op rejects cx op c)))" by (rule run_op_distinct)
qed

text \<open>On the example collection: \<open>greet\<close> cannot be created or taken as a new name.\<close>

theorem tag_ids_stay_distinct_witness:
  "create_tag ex_ctx ''greet'' ''hi'' (Some False) 5 ex_coll =
     returned [Reply 10 ''<@1> the name `greet` already exists''] ex_coll
   \<and> store (create_tag ex_ctx ''news'' ''hi'' (Some False) 5 ex_coll) =
       ex_coll @ [\<lparr>id' = ''news'', text' = ''hi'', count = 0, owner = 1, nsfw = False, created_at = 5\<rparr>]
   \<and> store (create_tag ex_ctx ''news'' ''hi'' None 5 ex_coll) = ex_coll
   \<and> name_edit ex_ctx ''rules'' ''greet'' ex_coll =
       returned [Reply 10 ''<@1> that name already exists in the database''] ex_coll
   \<and> distinct (map id' ex_coll)
   \<and> distinct (map id' (store (run_op False ex_ctx (NameEdit ''greet'' ''hello'') ex_coll)))"
proof -
  have i: "''greet'' \<in> set (map id' ex_coll)" "''news'' \<notin> set (map id' ex_coll)"
    and d: "distinct (map id' ex_coll)"
    by (simp_all add: ex_coll_def ex_doc_def)
  have c: "channel ex_ctx = 10" "author_mention ex_ctx = ''<@1>''" "author_id ex_ctx = 1"
    by (simp_all add: ex_ctx_def)
  show ?thesis
    using tag_ids_stay_distinct
            [of "''greet''" ex_coll ex_ctx "''hi''" "Some False" 5 False "''greet''" "''rules''"
                False "NameEdit ''greet'' ''hello''"]
          tag_ids_stay_distinct
            [of "''news''" ex_coll ex_ctx "''hi''" "Some False" 5 False "''greet''" "''rules''"
                False "NameEdit ''greet'' ''hello''"]
          i d
    by (simp add: c)
qed

section \<open>Properties of the telephone relay\<close>

lemma set_busy_caller:
  "db (guild_id cx) = Some a \<Longrightarrow> map_option is_line_busy (set_busy cx number v db (guild_id cx)) = Some v"
  by (auto simp: set_busy_def telephone_update_def split: option.splits)

lemma set_busy_target:
  "db number = Some a \<Longrightarrow> map_option is_line_busy (set_busy cx number v db number) = Some v"
  by (auto simp: set_busy_def telephone_update_def split: option.splits)


lemma after_after: "after as (after bs r) = after (as @ bs) r"
  by (simp add: after_def)


lemma after_raised: "after as (raised e bs s) = raised e (as @ bs) s"
  by (simp add: after_def raised_def)





lemma dial_connected:
  assumes "server \<noteq> guild_id cx"
      and "db (guild_id cx) = Some self_guild" and "db server = Some target_guild"
      and "\<not> is_line_busy target_guild"
      and "get_channel b (tel_channel target_guild) = Some target_channel"
      and "server \<notin> set (blocked self_guild)" and "guild_id cx \<notin> set (blocked target_guild)"
      and "wait_for (check_answer (channel cx) target_channel) es = (Some talk, rest)"
      and "lower (content talk) = ''pickup''"
    shows "dial b cx server r1 r2 clock es db =
        after [Send (channel cx)
                  (''Calling to **'' @ str_nat server @ '' ('' @ get_guild_name b server @
                   '')** ... Waiting for the response ...''),
                Send target_channel
                  (''**Incoming call from '' @ str_nat (guild_id cx) @ ''. '' @ guild_name cx @
                   '' ...**'' @ [CHR 0x0A] @ ''`pickup` to pickup | `hangup` to reject''),
                Send (channel cx) (''Connected. Say '' @ greeting r1),
                Send target_channel (''Connected. Say '' @ greeting r2)]
          (relay_loop b cx server target_channel (clock 0 + 120) clock 1 rest
             (set_busy cx server True db))"
  using assms by (simp add: dial_def after_after)


lemma relay_loop_raises:
  assumes "check_talk (channel cx) tc m" and "lower (content m) \<noteq> ''hangup''"
      and "relay cx tc m \<noteq> []" and "send_fails (relay_text m)"
    shows "relay_loop b cx n tc ini clock k (Message m # es) db = raised ''HTTPException'' [] db"
  using assms by (simp add: relay_loop.simps[of b cx n tc ini clock k "Message m # es" db])

lemma length_lower: "length (lower s) = length s"
  by (simp add: lower_def)

lemma ex_connected:
  "dial ex_bot ex_ctx 8 0 1 clock (Message (ex_msg ''PickUp'' 20) # es) ex_db =
     after
       [Send 10 ''Calling to **8 (Away)** ... Waiting for the response ...'',
        Send 20 (''**Incoming call from 7. Home ...**'' @ [CHR 0x0A] @
                 ''`pickup` to pickup | `hangup` to reject''),
        Send 10 ''Connected. Say hi'', Send 20 ''Connected. Say hello'']
       (relay_loop ex_bot ex_ctx 8 20 (clock 0 + 120) clock 1 es ex_busy_db)"
proof -
  have g: "(8::nat) \<noteq> guild_id ex_ctx" by (simp add: ex_ctx_def)
  have a: "ex_db (guild_id ex_ctx) = Some (ex_line 10 False)" by (simp add: ex_db_def ex_ctx_def)
  have t: "ex_db 8 = Some (ex_line 20 False)" by (simp add: ex_db_def)
  have f: "\<not> is_line_busy (ex_line 20 False)" by (simp add: ex_line_def)
  have c: "get_channel ex_bot (tel_channel (ex_line 20 False)) = Some 20"
    by (simp add: ex_bot_def ex_channels_def ex_line_def)
  have b1: "8 \<notin> set (blocked (ex_line 10 False))" and b2: "guild_id ex_ctx \<notin> set (blocked (ex_line 20 False))"
    by (simp_all add: ex_line_def)
  have l: "lower (content (ex_msg ''PickUp'' 20)) = ''pickup''" by code_simp
  have w: "wait_for (check_answer (channel ex_ctx) 20) (Message (ex_msg ''PickUp'' 20) # es)
           = (Some (ex_msg ''PickUp'' 20), es)"
    using l by (simp add: check_answer_def) (simp add: ex_msg_def)
  have n: "str_nat 8 = ''8''" "str_nat 7 = ''7''" by code_simp+
  have h: "greeting 0 = ''hi''" "greeting 1 = ''hello''" by (simp_all add: greeting_def)
  have s: "set_busy ex_ctx 8 True ex_db = ex_busy_db"
    by (auto simp: set_busy_def telephone_update_def ex_db_def ex_busy_db_def ex_ctx_def
          ex_line_def fun_eq_iff)
  have x: "channel ex_ctx = 10" "guild_id ex_ctx = 7" "guild_name ex_ctx = ''Home''"
    "get_guild_name ex_bot 8 = ''Away''"
    by (simp_all add: ex_ctx_def ex_bot_def ex_names_def)
  have "dial ex_bot ex_ctx 8 0 1 clock (Message (ex_msg ''PickUp'' 20) # es) ex_db =
        after [Send (channel ex_ctx)
                  (''Calling to **'' @ str_nat 8 @ '' ('' @ get_guild_name ex_bot 8 @
                   '')** ... Waiting for the response ...''),
                Send 20
                  (''**Incoming call from '' @ str_nat (guild_id ex_ctx) @ ''. '' @ guild_name ex_ctx @
                   '' ...**'' @ [CHR 0x0A] @ ''`pickup` to pickup | `hangup` to reject''),
                Send (channel ex_ctx) (''Connected. Say '' @ greeting 0),
                Send 20 (''Connected. Say '' @ greeting 1)]
          (relay_loop ex_bot ex_ctx 8 20 (clock 0 + 120) clock 1 es
             (set_busy ex_ctx 8 True ex_db))"
    by (rule dial_connected) (fact g a t f c b1 b2 w l)+
  then show ?thesis unfolding n h s x by simp
qed


lemma ex_talk:
  "check_talk (channel ex_ctx) 20 (ex_msg t 20)" "check_talk (channel ex_ctx) 20 (ex_msg t 10)"
  "relay ex_ctx 20 (ex_msg t 20) = [Send 10 (''**bob#0002** '' @ t)]"
  "relay ex_ctx 20 (ex_msg t 10) = [Send 20 (''**bob#0002** '' @ t)]"
  "length (relay_text (ex_msg t c)) = 13 + length t"
  by (simp_all add: check_talk_def relay_def relay_text_def ex_msg_def ex_ctx_def)

lemma wait_for_None_iff:
  "fst (wait_for check es) = None \<longleftrightarrow>
   (\<forall>m. Message m \<in> set (takeWhile (\<lambda>e. e \<noteq> Timeout) es) \<longrightarrow> \<not> check m)"
  by (induction check es rule: wait_for.induct) auto

text \<open>
  Claim C1: the call is placed (the guards of \<open>dial\<close> pass) and no message that comes
  before the 60 seconds are over is a \<open>pickup\<close> or \<open>hangup\<close> in either channel. Then
  the handler has sent the two opening messages and the notice that the line was
  inactive for more than 60 seconds to both channels, nothing else; both guilds' lines
  are marked free; and it has returned.
\<close>

theorem dial_unanswered_disconnects:
  assumes "server \<noteq> guild_id cx"
      and "db (guild_id cx) = Some self_guild" and "db server = Some target_guild"
      and "\<not> is_line_busy target_guild"
      and "get_channel b (tel_channel target_guild) = Some target_channel"
      and "server \<notin> set (blocked self_guild)" and "guild_id cx \<notin> set (blocked target_guild)"
      and "\<And>m. Message m \<in> set (takeWhile (\<lambda>e. e \<noteq> Timeout) es) \<Longrightarrow>
                \<not> (lower (content m) \<in> {''pickup'', ''hangup''}
                   \<and> (msg_channel m = channel cx \<or> msg_channel m = target_channel))"
    shows "dial b cx server r1 r2 clock es db =
             returned
               [Send (channel cx)
                  (''Calling to **'' @ str_nat server @ '' ('' @ get_guild_name b server @
                   '')** ... Waiting for the response ...''),
                Send target_channel
                  (''**Incoming call from '' @ str_nat (guild_id cx) @ ''. '' @ guild_name cx @
                   '' ...**'' @ [CHR 0x0A] @ ''`pickup` to pickup | `hangup` to reject''),
                Send target_channel
                  (''Line disconnected from **'' @ str_nat (guild_id cx) @ '' ('' @ guild_name cx @
                   '')**. Reason: Line Inactive for more than 60 seconds''),
                Reply (channel cx)
                  (''Line disconnected from **'' @ str_nat server @ '' ('' @ get_guild_name b server @
                   '')**. Reason: Line Inactive for more than 60 seconds'')]
               (set_busy cx server False db)
           \<and> map_option is_line_busy (set_busy cx server False db (guild_id cx)) = Some False
           \<and> map_option is_line_busy (set_busy cx server False db server) = Some False"
proof -
  have "fst (wait_for (check_answer (channel cx) target_channel) es) = None"
    unfolding wait_for_None_iff using assms(8) by (simp add: check_answer_def)
  then obtain rest where "wait_for (check_answer (channel cx) target_channel) es = (None, rest)"
    by (cases "wait_for (check_answer (channel cx) target_channel) es") auto
  with assms(1-7) show ?thesis
    by (simp add: dial_def line_inactive_def after_def returned_def set_busy_caller set_busy_target)
qed

text \<open>
  A message that is no answer, then silence: the call from guild 7 to guild 8 ends,
  and a \<open>pickup\<close> that comes too late changes nothing.
\<close>

theorem dial_unanswered_disconnects_witness:
  "dial ex_bot ex_ctx 8 0 1 ex_clock [Message (ex_msg ''hello'' 20), Timeout, Message (ex_msg ''pickup'' 20)] ex_db =
     returned
       [Send 10 ''Calling to **8 (Away)** ... Waiting for the response ...'',
        Send 20 (''**Incoming call from 7. Home ...**'' @ [CHR 0x0A] @
                 ''`pickup` to pickup | `hangup` to reject''),
        Send 20 ''Line disconnected from **7 (Home)**. Reason: Line Inactive for more than 60 seconds'',
        Reply 10 ''Line disconnected from **8 (Away)**. Reason: Line Inactive for more than 60 seconds'']
       ex_db
   \<and> map_option is_line_busy (ex_db 7) = Some False
   \<and> map_option is_line_busy (ex_db 8) = Some False"
proof -
  have g: "(8::nat) \<noteq> guild_id ex_ctx" by (simp add: ex_ctx_def)
  have a: "ex_db (guild_id ex_ctx) = Some (ex_line 10 False)" by (simp add: ex_db_def ex_ctx_def)
  have t: "ex_db 8 = Some (ex_line 20 False)" by (simp add: ex_db_def)
  have f: "\<not> is_line_busy (ex_line 20 False)" by (simp add: ex_line_def)
  have c: "get_channel ex_bot (tel_channel (ex_line 20 False)) = Some 20"
    by (simp add: ex_bot_def ex_channels_def ex_line_def)
  have b1: "8 \<notin> set (blocked (ex_line 10 False))" and b2: "guild_id ex_ctx \<notin> set (blocked (ex_line 20 False))"
    by (simp_all add: ex_line_def)
  have l: "lower (content (ex_msg ''hello'' 20)) = ''hello''" by code_simp
  have w: "\<not> (lower (content m) \<in> {''pickup'', ''hangup''}
                   \<and> (msg_channel m = channel ex_ctx \<or> msg_channel m = 20))"
    if "Message m \<in> set (takeWhile (\<lambda>e. e \<noteq> Timeout)
          [Message (ex_msg ''hello'' 20), Timeout, Message (ex_msg ''pickup'' 20)])" for m
  proof -
    from that have "m = ex_msg ''hello'' 20" by simp
    with l show ?thesis by simp
  qed
  have s: "set_busy ex_ctx 8 False ex_db = ex_db"
    by (auto simp: set_busy_def telephone_update_def ex_db_def ex_ctx_def ex_line_def fun_eq_iff)
  have n: "str_nat 8 = ''8''" "str_nat 7 = ''7''" by code_simp+
  have x: "channel ex_ctx = 10" "guild_id ex_ctx = 7" "guild_name ex_ctx = ''Home''"
    "get_guild_name ex_bot 8 = ''Away''"
    by (simp_all add: ex_ctx_def ex_bot_def ex_names_def)
  show ?thesis
    using dial_unanswered_disconnects
            [where server = 8 and cx = ex_ctx and db = ex_db and b = ex_bot and target_channel = 20
               and self_guild = "ex_line 10 False" and target_guild = "ex_line 20 False"
               and es = "[Message (ex_msg ''hello'' 20), Timeout, Message (ex_msg ''pickup'' 20)]"
               and ?r1.0 = 0 and ?r2.0 = 1 and clock = ex_clock, OF g a t f c b1 b2 w]
    by (simp add: s n x)
qed





text \<open>
  Claim C3 fails for a call to the caller's own guild: \<open>dial\<close> tests that first. The
  guild's document exists and its line is busy, and the answer is that a self call
  cannot be made.
\<close>

theorem dial_self_call_counterexample:
  "ex_busy_db (guild_id ex_ctx) = Some (ex_line 10 True)
   \<and> is_line_busy (ex_line 10 True)
   \<and> dial ex_bot ex_ctx (guild_id ex_ctx) 0 0 ex_clock [] ex_busy_db =
       returned [Send 10 ''Can't make a self call''] ex_busy_db
   \<and> dial ex_bot ex_ctx (guild_id ex_ctx) 0 0 ex_clock [] ex_busy_db \<noteq>
       returned [Send 10 ''Can not make a connection to **7 (Home)**. Line busy!''] ex_busy_db"
  by (simp add: dial_def returned_def ex_ctx_def ex_bot_def ex_channels_def ex_names_def ex_line_def ex_db_def ex_msg_def ex_clock_def ex_busy_db_def)

text \<open>
  Claim C3, amended: when the guild dialled is not the caller's own, both guilds have a
  telephone document and the target's line is busy, the handler sends the line-busy
  message to the caller's channel and nothing else, and leaves every telephone document
  as it was.
\<close>

theorem dial_line_busy:
  assumes "server \<noteq> guild_id cx"
      and "db (guild_id cx) = Some self_guild" and "db server = Some target_guild"
      and "is_line_busy target_guild"
    shows "dial b cx server r1 r2 clock es db =
             returned [Send (channel cx)
               (''Can not make a connection to **'' @ str_nat server @ '' ('' @
                get_guild_name b server @ '')**. Line busy!'')] db"
  using assms by (simp add: dial_def)


theorem dial_line_busy_witness:
  "dial ex_bot ex_ctx 8 0 1 ex_clock [Message (ex_msg ''pickup'' 20)] ex_busy_db =
     returned [Send 10 ''Can not make a connection to **8 (Away)**. Line busy!''] ex_busy_db"
proof -
  have g: "(8::nat) \<noteq> guild_id ex_ctx" by (simp add: ex_ctx_def)
  have a: "ex_busy_db (guild_id ex_ctx) = Some (ex_line 10 True)"
    by (simp add: ex_busy_db_def ex_ctx_def)
  have t: "ex_busy_db 8 = Some (ex_line 20 True)" by (simp add: ex_busy_db_def)
  have f: "is_line_busy (ex_line 20 True)" by (simp add: ex_line_def)
  have n: "str_nat 8 = ''8''" by code_simp
  have x: "channel ex_ctx = 10" "get_guild_name ex_bot 8 = ''Away''"
    by (simp_all add: ex_ctx_def ex_bot_def ex_names_def)
  show ?thesis
    using dial_line_busy
            [where server = 8 and cx = ex_ctx and db = ex_busy_db and b = ex_bot
               and self_guild = "ex_line 10 True" and target_guild = "ex_line 20 True"
               and es = "[Message (ex_msg ''pickup'' 20)]" and ?r1.0 = 0 and ?r2.0 = 1
               and clock = ex_clock]
          g a t f
    by (simp add: n x)
qed

text \<open>
  Claim C8 says that the handler never ends with a line marked busy. The code marks
  the lines free on its three exits, but not when a send of the loop raises. Both lines
  are free, the call is picked up, and a user in the target channel writes 2000
  characters: the relayed text has 2013, the send raises, and the handler ends there
  with both lines marked busy.
\<close>

theorem dial_long_message_leaves_lines_busy:
  "length (content (ex_msg ex_long 20)) = 2000
   \<and> length (relay_text (ex_msg ex_long 20)) = 2013
   \<and> map_option is_line_busy (ex_db 7) = Some False
   \<and> map_option is_line_busy (ex_db 8) = Some False
   \<and> dial ex_bot ex_ctx 8 0 1 ex_clock
       [Message (ex_msg ''PickUp'' 20), Message (ex_msg ex_long 20)] ex_db =
     raised ''HTTPException''
       [Send 10 ''Calling to **8 (Away)** ... Waiting for the response ...'',
        Send 20 (''**Incoming call from 7. Home ...**'' @ [CHR 0x0A] @
                 ''`pickup` to pickup | `hangup` to reject''),
        Send 10 ''Connected. Say hi'', Send 20 ''Connected. Say hello'']
       ex_busy_db
   \<and> map_option is_line_busy (ex_busy_db 7) = Some True
   \<and> map_option is_line_busy (ex_busy_db 8) = Some True"
proof -
  have len: "length ex_long = 2000" by (simp only: ex_long_def length_replicate)
  have c: "length (content (ex_msg ex_long 20)) = 2000" by (simp add: ex_msg_def len)
  have r: "length (relay_text (ex_msg ex_long 20)) = 2013" by (simp add: ex_talk len)
  have h: "lower (content (ex_msg ex_long 20)) \<noteq> ''hangup''"
  proof
    assume "lower (content (ex_msg ex_long 20)) = ''hangup''"
    then have "length (lower (content (ex_msg ex_long 20))) = length ''hangup''" by simp
    then show False by (simp add: length_lower c)
  qed
  have f: "send_fails (relay_text (ex_msg ex_long 20))" by (simp add: send_fails_def r)
  have e: "relay ex_ctx 20 (ex_msg ex_long 20) \<noteq> []" by (simp add: ex_talk)
  have d: "map_option is_line_busy (ex_db 7) = Some False" "map_option is_line_busy (ex_db 8) = Some False"
    "map_option is_line_busy (ex_busy_db 7) = Some True" "map_option is_line_busy (ex_busy_db 8) = Some True"
    by (simp_all add: ex_db_def ex_busy_db_def ex_line_def)
  have l: "relay_loop ex_bot ex_ctx 8 20 (ex_clock 0 + 120) ex_clock 1
             [Message (ex_msg ex_long 20)] ex_busy_db = raised ''HTTPException'' [] ex_busy_db"
    by (rule relay_loop_raises) (fact ex_talk(1) h e f)+
  have 1: "dial ex_bot ex_ctx 8 0 1 ex_clock
       [Message (ex_msg ''PickUp'' 20), Message (ex_msg ex_long 20)] ex_db =
     raised ''HTTPException''
       [Send 10 ''Calling to **8 (Away)** ... Waiting for the response ...'',
        Send 20 (''**Incoming call from 7. Home ...**'' @ [CHR 0x0A] @
                 ''`pickup` to pickup | `hangup` to reject''),
        Send 10 ''Connected. Say hi'', Send 20 ''Connected. Say hello'']
       ex_busy_db"
    unfolding ex_connected l after_raised by simp
  from c r d 1 show ?thesis by (intro conjI)
qed


section \<open>Properties of the fact command\<close>

text \<open>
  Claim C5 says that the fact command answers every animal name, with an error message
  when the name is not one of the six. The code has no branch for that case: for
  \<open>lion\<close> the handler returns and has sent nothing, although the API would answer.
\<close>

theorem animal_fact_unsupported_silent:
  "animal_fact ex_request ex_ctx ''lion'' = returned [] ()"
  by (simp add: animal_fact_def lower_def lower_char_def)

section \<open>Properties of the Base64 commands\<close>

lemma b64_table_length: "length b64_table = 64"
  by (simp add: b64_table_def)

lemma b64_table_distinct: "distinct b64_table"
  by (simp add: b64_table_def distinct_map inj_on_def)

lemma index_of_nth: "distinct xs \<Longrightarrow> i < length xs \<Longrightarrow> index_of (xs ! i) xs = Some i"
proof (induction xs arbitrary: i)
  case Nil
  then show ?case by simp
next
  case (Cons x xs)
  then show ?case by (cases i) auto
qed

lemma b64_value_table: "i < 64 \<Longrightarrow> b64_value (b64_table ! i) = Some i"
  by (simp add: b64_value_def index_of_nth b64_table_distinct b64_table_length)

lemma b64_table_not_pad: "i < 64 \<Longrightarrow> b64_table ! i \<noteq> b64_pad"
proof -
  have "b64_pad \<notin> set b64_table" by (simp add: b64_table_def b64_pad_def)
  then show "i < 64 \<Longrightarrow> b64_table ! i \<noteq> b64_pad"
    by (metis b64_table_length nth_mem)
qed

lemma b64_table_ascii: "i < 64 \<Longrightarrow> b64_table ! i < 128"
proof -
  have "list_all (\<lambda>c. c < 128) b64_table" by (simp add: b64_table_def)
  then show "i < 64 \<Longrightarrow> b64_table ! i < 128"
    by (simp add: list_all_length b64_table_length)
qed

lemma sextets:
  fixes a b c :: nat
  assumes "a < 256" "b < 256" "c < 256"
  shows "a div 4 < 64" "a mod 4 * 16 + b div 16 < 64" "b mod 16 * 4 + c div 64 < 64" "c mod 64 < 64"
        "a mod 4 * 16 < 64" "b mod 16 * 4 < 64"
  using assms by auto

lemma regroup1:
  fixes a b :: nat
  assumes "a < 256" "b < 256"
  shows "(a div 4 * 4 + (a mod 4 * 16 + b div 16) div 16) mod 256 = a"
proof -
  have "b div 16 < 16" using assms by simp
  then have "(a mod 4 * 16 + b div 16) div 16 = a mod 4" by simp
  then show ?thesis using assms by simp
qed

lemma regroup2:
  fixes a b c :: nat
  assumes "b < 256" "c < 256"
  shows "((a mod 4 * 16 + b div 16) mod 16 * 16 + (b mod 16 * 4 + c div 64) div 4) mod 256 = b"
proof -
  have "b div 16 < 16" "c div 64 < 4" using assms by simp_all
  then have "(a mod 4 * 16 + b div 16) mod 16 = b div 16" "(b mod 16 * 4 + c div 64) div 4 = b mod 16"
    by simp_all
  then show ?thesis using assms by simp
qed

lemma regroup3:
  fixes b c :: nat
  assumes "c < 256"
  shows "((b mod 16 * 4 + c div 64) mod 4 * 64 + c mod 64) mod 256 = c"
proof -
  have "c div 64 < 4" using assms by simp
  then have "(b mod 16 * 4 + c div 64) mod 4 = c div 64" by simp
  then show ?thesis using assms by simp
qed

lemma regroup1_pad:
  fixes a :: nat
  assumes "a < 256"
  shows "(a div 4 * 4 + (a mod 4 * 16) div 16) mod 256 = a"
  using assms by simp

lemma regroup2_pad:
  fixes a b :: nat
  assumes "b < 256"
  shows "((a mod 4 * 16 + b div 16) mod 16 * 16 + (b mod 16 * 4) div 4) mod 256 = b"
proof -
  have "b div 16 < 16" using assms by simp
  then have "(a mod 4 * 16 + b div 16) mod 16 = b div 16" by simp
  then show ?thesis using assms by simp
qed

lemma a2b_b64encode:
  "list_all (\<lambda>b. b < 256) bs \<Longrightarrow> a2b_base64 (b64encode bs) 0 l p out = Inr (out @ bs)"
proof (induction bs arbitrary: l p out rule: b64encode.induct)
  case 1
  then show ?case by simp
next
  case (2 a)
  then have a: "a < 256" by simp
  show ?case using a by (simp add: b64_value_table b64_table_not_pad sextets regroup1_pad regroup2_pad)
next
  case (3 a b)
  then have a: "a < 256" "b < 256" by simp_all
  show ?case using a by (simp add: b64_value_table b64_table_not_pad sextets regroup1_pad regroup2_pad)
next
  case (4 a b c bs)
  then have a: "a < 256" "b < 256" "c < 256" and r: "list_all (\<lambda>b. b < 256) bs" by simp_all
  show ?case using a by (simp add: b64_value_table b64_table_not_pad sextets regroup1 regroup2 regroup3 "4.IH"[OF r])
qed

lemma b64encode_ascii: "list_all (\<lambda>b. b < 256) bs \<Longrightarrow> list_all (\<lambda>c. c < 128) (b64encode bs)"
proof (induction bs rule: b64encode.induct)
  case 1
  then show ?case by simp
next
  case (2 a)
  then have a: "a < 256" by simp
  show ?case using a by (simp add: b64_table_ascii sextets b64_pad_def)
next
  case (3 a b)
  then have a: "a < 256" "b < 256" by simp_all
  show ?case using a by (simp add: b64_table_ascii sextets b64_pad_def)
next
  case (4 a b c bs)
  then have a: "a < 256" "b < 256" "c < 256" and r: "list_all (\<lambda>b. b < 256) bs" by simp_all
  show ?case using a by (simp add: b64_table_ascii sextets "4.IH"[OF r])
qed

lemma ascii_roundtrip:
  "list_all (\<lambda>b. b < 128) bs \<Longrightarrow> encode_ascii (map char_of bs) = Inr bs"
  by (induction bs) (auto simp: encode_ascii_def split: if_splits)

text \<open>
  Claim C10: for an ASCII string \<open>s\<close>, \<open>encode\<close> computes a Base64 text from which
  \<open>decode\<close> computes \<open>s\<close> again; and when the authors have an avatar, \<open>encode\<close> sends
  that text in its second field and \<open>decode\<close>, given the text, sends \<open>s\<close> in its second
  field.
\<close>

theorem base64_roundtrip:
  assumes "list_all (\<lambda>c. (of_char c :: nat) < 128) s"
      and "author_avatar cx = Some icon" and "author_avatar cx' = Some icon'"
  shows "\<exists>b. encode_text s = Inr b \<and> decode_text b = Inr s
           \<and> encode cx s =
               returned [SendEmbed (channel cx)
                 \<lparr>title = ''Encoding...'', description = [],
                  embed_fields =
                    [(''Normal [string] text:'', fence s),
                     (''Encoded [base64]:'', fence b),
                     (''Encoded [binary]:'', fence (concat (map (\<lambda>i. bin_nat (of_char i)) s)))],
                  image = None, footer = author_name cx\<rparr>] ()
           \<and> decode cx' b =
               returned [SendEmbed (channel cx')
                 \<lparr>title = ''Decoding...'', description = [],
                  embed_fields = [(''Encoded text:'', fence b), (''Decoded text:'', fence s)],
                  image = None, footer = author_name cx'\<rparr>] ()"
proof -
  let ?bs = "map of_char s :: nat list"
  have e: "encode_ascii s = Inr ?bs" using assms(1) by (simp add: encode_ascii_def)
  have small: "list_all (\<lambda>b. b < 128) ?bs" using assms(1) by (simp add: list_all_iff)
  then have bytes: "list_all (\<lambda>b. b < 256) ?bs" by (auto simp: list_all_iff)
  have a: "list_all (\<lambda>c. c < 128) (b64encode ?bs)" by (rule b64encode_ascii[OF bytes])
  let ?b = "map char_of (b64encode ?bs) :: string"
  have 1: "encode_text s = Inr ?b" using a by (simp add: encode_text_def e decode_ascii_def)
  have 2: "encode_ascii ?b = Inr (b64encode ?bs)" by (rule ascii_roundtrip[OF a])
  have 3: "b64decode (b64encode ?bs) = Inr ?bs"
    using a2b_b64encode[OF bytes, of 0 0 "[]"] by (simp add: b64decode_def)
  have 4: "decode_ascii ?bs = Inr s" using small by (simp add: decode_ascii_def comp_def)
  have 5: "decode_text ?b = Inr s" by (simp add: decode_text_def 2 3 4)
  have 6: "encode cx s =
               returned [SendEmbed (channel cx)
                 \<lparr>title = ''Encoding...'', description = [],
                  embed_fields =
                    [(''Normal [string] text:'', fence s),
                     (''Encoded [base64]:'', fence ?b),
                     (''Encoded [binary]:'', fence (concat (map (\<lambda>i. bin_nat (of_char i)) s)))],
                  image = None, footer = author_name cx\<rparr>] ()"
    by (simp add: encode_def 1 assms(2))
  have 7: "decode cx' ?b =
               returned [SendEmbed (channel cx')
                 \<lparr>title = ''Decoding...'', description = [],
                  embed_fields = [(''Encoded text:'', fence ?b), (''Decoded text:'', fence s)],
                  image = None, footer = author_name cx'\<rparr>] ()"
    by (simp add: decode_def 5 assms(3))
  from 1 5 6 7 show ?thesis by blast
qed

text \<open>The text \<open>hi\<close> is encoded as \<open>aGk=\<close>, and \<open>aGk=\<close> is decoded as \<open>hi\<close>.\<close>

theorem base64_roundtrip_witness:
  "encode_text ''hi'' = Inr ''aGk='' \<and> decode_text ''aGk='' = Inr ''hi''"
proof -
  have h: "list_all (\<lambda>c. (of_char c :: nat) < 128) ''hi''" by simp
  have v: "author_avatar ex_ctx = Some ''https://cdn.example/a.png''" by (simp add: ex_ctx_def)
  have e: "encode_text ''hi'' = Inr ''aGk=''"
    by code_simp
  from base64_roundtrip [OF h v v]
  obtain b where "encode_text ''hi'' = Inr b" and d: "decode_text b = Inr ''hi''" by blast
  with e have "b = ''aGk=''" by simp
  with d e show ?thesis by simp
qed

section \<open>Properties of \<open>multiple_wait_for\<close>\<close>

text \<open>
  Claim C7: \<open>multiple_wait_for\<close> gives the same result for a dict of events as for the
  list of its items, with the same \<open>return_when\<close>, \<open>timeout\<close> and keyword arguments
  (and the same \<open>asyncio.wait\<close> underneath).
\<close>

theorem multiple_wait_for_dict_as_items:
  "multiple_wait_for asyncio_wait (EventDict d) return_when timeout kwargs =
   multiple_wait_for asyncio_wait (EventList (items d)) return_when timeout kwargs"
  by (simp add: multiple_wait_for_def)

end
